theory Spec2Isabelle
  imports Main "HOL-Library.Sublist" "HOL-Library.Word"
begin

section \<open>Go string primitives used by the logger\<close>

text \<open>
  Go strings are byte sequences; they are modelled as \<open>string\<close> (a list of 8-bit
  characters).  The functions below follow the Go standard library for the arguments the
  logger passes to them: every separator, pattern and cutset in the source is a non-empty
  constant, so the special treatment Go gives to an empty separator is not modelled.
\<close>

definition HasPrefix :: "string \<Rightarrow> string \<Rightarrow> bool" where
  "HasPrefix s p = (take (length p) s = p)"

text \<open>\<open>strings.Contains\<close>: some suffix of \<open>s\<close> starts with \<open>sub\<close>.\<close>

fun Contains :: "string \<Rightarrow> string \<Rightarrow> bool" where
  "Contains [] sub = (sub = [])"
| "Contains (c # cs) sub = (HasPrefix (c # cs) sub \<or> Contains cs sub)"

text \<open>\<open>strings.Count\<close>: the number of non-overlapping occurrences, scanning left to right.\<close>

function Count :: "string \<Rightarrow> string \<Rightarrow> nat" where
  "Count [] sub = 0"
| "Count (c # cs) sub =
     (if sub \<noteq> [] \<and> HasPrefix (c # cs) sub
      then Suc (Count (drop (length sub) (c # cs)) sub)
      else Count cs sub)"
  by pat_completeness auto
termination
  by (relation "measure (\<lambda>(s, sub). length s)") auto

text \<open>\<open>bytealg.IndexByteString\<close> and \<open>bytealg.LastIndexByteString\<close>: \<open>-1\<close> when absent.\<close>

fun IndexByteString :: "string \<Rightarrow> char \<Rightarrow> int" where
  "IndexByteString [] b = -1"
| "IndexByteString (c # cs) b =
     (if c = b then 0
      else (let r = IndexByteString cs b in if r < 0 then -1 else r + 1))"

fun LastIndexByteString :: "string \<Rightarrow> char \<Rightarrow> int" where
  "LastIndexByteString [] b = -1"
| "LastIndexByteString (c # cs) b =
     (let r = LastIndexByteString cs b in
      if 0 \<le> r then r + 1 else if c = b then 0 else -1)"

text \<open>Go slicing \<open>s[i:j]\<close>, \<open>s[i:]\<close> and \<open>s[:j]\<close> for indices already known to be in range.\<close>

definition slice :: "string \<Rightarrow> int \<Rightarrow> int \<Rightarrow> string" where
  "slice s i j = take (nat j - nat i) (drop (nat i) s)"

definition slice_from :: "string \<Rightarrow> int \<Rightarrow> string" where
  "slice_from s i = drop (nat i) s"

definition slice_to :: "string \<Rightarrow> int \<Rightarrow> string" where
  "slice_to s j = take (nat j) s"

section \<open>The IP extractor (util.go)\<close>

text \<open>
  \<open>net.SplitHostPort\<close> of the Go standard library, which \<open>parseIP\<close> calls.  It returns
  the triple (host, port, err); on every failure host and port are empty and the error
  carries one of the library's fixed reasons.
\<close>

definition missingPort :: string where
  "missingPort = ''missing port in address''"

definition tooManyColons :: string where
  "tooManyColons = ''too many colons in address''"

definition addrErr :: "string \<Rightarrow> string \<Rightarrow> string \<times> string \<times> string option" where
  "addrErr addr why = ([], [], Some why)"

definition SplitHostPort_tail ::
  "string \<Rightarrow> string \<Rightarrow> int \<Rightarrow> int \<Rightarrow> int \<Rightarrow> string \<times> string \<times> string option" where
  "SplitHostPort_tail hostport host i j k =
     (if 0 \<le> IndexByteString (slice_from hostport j) (CHR ''['')
      then addrErr hostport (''unexpected '' @ [CHR 0x27, CHR ''['', CHR 0x27] @ '' in address'')
      else if 0 \<le> IndexByteString (slice_from hostport k) (CHR '']'')
      then addrErr hostport (''unexpected '' @ [CHR 0x27, CHR '']'', CHR 0x27] @ '' in address'')
      else (host, slice_from hostport (i + 1), None))"

definition SplitHostPort :: "string \<Rightarrow> string \<times> string \<times> string option" where
  "SplitHostPort hostport =
     (let i = LastIndexByteString hostport (CHR '':'') in
      if i < 0 then addrErr hostport missingPort
      else if hd hostport = CHR ''[''
      then (let end = IndexByteString hostport (CHR '']'') in
            if end < 0
            then addrErr hostport (''missing '' @ [CHR 0x27, CHR '']'', CHR 0x27] @ '' in address'')
            else if end + 1 = int (length hostport) then addrErr hostport missingPort
            else if end + 1 = i
            then SplitHostPort_tail hostport (slice hostport 1 end) i 1 (end + 1)
            else if hostport ! nat (end + 1) = CHR '':'' then addrErr hostport tooManyColons
            else addrErr hostport missingPort)
      else (let host = slice_to hostport i in
            if 0 \<le> IndexByteString host (CHR '':'') then addrErr hostport tooManyColons
            else SplitHostPort_tail hostport host i 0 0))"

definition parseIP :: "string \<Rightarrow> string" where
  "parseIP remoteAddr =
     (if HasPrefix remoteAddr ''['' \<or> Count remoteAddr '':'' = 1
      then fst (SplitHostPort remoteAddr)
      else remoteAddr)"

section \<open>The error extractor\<close>

text \<open>\<open>strings.TrimLeft\<close>: drop the leading bytes that occur in the cutset.\<close>

definition TrimLeft :: "string \<Rightarrow> string \<Rightarrow> string" where
  "TrimLeft s cutset = dropWhile (\<lambda>c. c \<in> set cutset) s"

text \<open>\<open>strings.ReplaceAll\<close>: non-overlapping occurrences of \<open>old\<close>, left to right.\<close>

function ReplaceAll :: "string \<Rightarrow> string \<Rightarrow> string \<Rightarrow> string" where
  "ReplaceAll [] old new = []"
| "ReplaceAll (c # cs) old new =
     (if old \<noteq> [] \<and> HasPrefix (c # cs) old
      then new @ ReplaceAll (drop (length old) (c # cs)) old new
      else c # ReplaceAll cs old new)"
  by pat_completeness auto
termination
  by (relation "measure (\<lambda>(s, old, new). length s)") auto

text \<open>
  \<open>strings.Split\<close>: the substrings between the occurrences of \<open>sep\<close>.  The empty string
  splits into one empty substring, as in Go.
\<close>

function Split :: "string \<Rightarrow> string \<Rightarrow> string list" where
  "Split [] sep = [[]]"
| "Split (c # cs) sep =
     (if sep \<noteq> [] \<and> HasPrefix (c # cs) sep
      then [] # Split (drop (length sep) (c # cs)) sep
      else (case Split cs sep of
              [] \<Rightarrow> [[c]]
            | w # ws \<Rightarrow> (c # w) # ws))"
  by pat_completeness auto
termination
  by (relation "measure (\<lambda>(s, sep). length s)") auto

text \<open>\<open>strings.Join\<close>.\<close>

fun Join :: "string list \<Rightarrow> string \<Rightarrow> string" where
  "Join [] sep = []"
| "Join [x] sep = x"
| "Join (x # y # ys) sep = x @ sep @ Join (y # ys) sep"

text \<open>\<open>strconv.Itoa\<close>: decimal digits, with a minus sign for a negative number.\<close>

definition digit :: "nat \<Rightarrow> char" where
  "digit d = char_of (48 + d)"

function decimal :: "nat \<Rightarrow> string" where
  "decimal n = (if n < 10 then [digit n] else decimal (n div 10) @ [digit (n mod 10)])"
  by pat_completeness auto
termination
  by (relation "measure id") auto

declare decimal.simps [simp del]

definition Itoa :: "int \<Rightarrow> string" where
  "Itoa i = (if i < 0 then CHR ''-'' # decimal (nat (- i)) else decimal (nat i))"

text \<open>
  A frame of \<open>github.com/pkg/errors\<close>: the function name, file and line that the library
  reads from the program counter.  \<open>Frame_Format\<close> is the library's rendering of one frame
  under \<open>%+v\<close>, and \<open>StackTrace_Format\<close> that of a whole trace: each frame on its own
  line, preceded by a newline.
\<close>

record Frame =
  frame_name :: string
  frame_file :: string
  frame_line :: int

definition Frame_Format :: "Frame \<Rightarrow> string" where
  "Frame_Format f = frame_name f @ [CHR 0x0A, CHR 0x09] @ frame_file f @ '':'' @ Itoa (frame_line f)"

definition StackTrace_Format :: "Frame list \<Rightarrow> string" where
  "StackTrace_Format st = concat (map (\<lambda>f. CHR 0x0A # Frame_Format f) st)"

text \<open>
  A Go \<open>error\<close> value: what its \<open>Error()\<close> method returns, and the frames of its
  \<open>StackTrace()\<close> method when the value implements the \<open>stackTracer\<close> interface.
\<close>

datatype goerror = GoError (Error: string) (StackTrace: "Frame list option")

datatype panic = NilDereference | IndexOutOfRange | SliceBoundsOutOfRange

definition MaxStackTrace :: int where
  "MaxStackTrace = 10"

definition emptyStack :: "string list" where
  "emptyStack = []"

definition stackTrace :: "goerror \<Rightarrow> string list" where
  "stackTrace err =
     (case StackTrace err of
        Some st \<Rightarrow>
          Split (ReplaceAll (TrimLeft (StackTrace_Format st) [CHR 0x0A]) [CHR 0x0A, CHR 0x09] '' '')
                [CHR 0x0A]
      | None \<Rightarrow> emptyStack)"

text \<open>
  \<open>extractError\<close>, with the process-wide \<open>MaxStackTrace\<close> as the parameter \<open>maxST\<close>.
  Slicing \<open>st[:maxST]\<close> with a negative bound panics.
\<close>

definition extractError :: "int \<Rightarrow> goerror \<Rightarrow> panic + (string \<times> string list)" where
  "extractError maxST err =
     (let st = stackTrace err in
      if length st > 0
      then (if int (length st) \<ge> maxST
            then (if maxST < 0 then Inl SliceBoundsOutOfRange
                  else Inr (Error err, take (nat maxST) st))
            else Inr (Error err, st))
      else Inr (Error err, []))"

section \<open>The HTTP request as the enricher sees it\<close>

text \<open>
  \<open>url.Values\<close> and \<open>http.Header\<close> are Go maps from a key to a list of strings.  A map is
  modelled by an association list with distinct keys; the list order stands for the order
  in which a \<open>range\<close> loop happens to visit the map, which Go leaves unspecified.
\<close>

type_synonym Values = "(string \<times> string list) list"

text \<open>\<open>m[key] = append(m[key], value)\<close> on such a map.\<close>

fun Values_append :: "Values \<Rightarrow> string \<Rightarrow> string list \<Rightarrow> Values" where
  "Values_append [] k vs = [(k, vs)]"
| "Values_append ((k', vs') # m) k vs =
     (if k' = k then (k', vs' @ vs) # m else (k', vs') # Values_append m k vs)"

text \<open>\<open>copyValues\<close> of net/http: append every value list of \<open>src\<close> to \<open>dst\<close>.\<close>

fun copyValues :: "Values \<Rightarrow> Values \<Rightarrow> Values" where
  "copyValues dst [] = dst"
| "copyValues dst ((k, vs) # src) = copyValues (Values_append dst k vs) src"

text \<open>
  \<open>url.QueryUnescape\<close>: \<open>%XX\<close> becomes the byte with that hexadecimal code, \<open>+\<close> a space;
  a percent sign not followed by two hexadecimal digits is an error (\<open>None\<close>).
\<close>

definition byte :: "char \<Rightarrow> nat" where
  "byte c = of_char c"

definition ishex :: "char \<Rightarrow> bool" where
  "ishex c = ((48 \<le> byte c \<and> byte c \<le> 57) \<or> (97 \<le> byte c \<and> byte c \<le> 102)
              \<or> (65 \<le> byte c \<and> byte c \<le> 70))"

definition unhex :: "char \<Rightarrow> nat" where
  "unhex c =
     (if 48 \<le> byte c \<and> byte c \<le> 57 then byte c - 48
      else if 97 \<le> byte c \<and> byte c \<le> 102 then byte c - 97 + 10
      else if 65 \<le> byte c \<and> byte c \<le> 70 then byte c - 65 + 10
      else 0)"

fun QueryUnescape :: "string \<Rightarrow> string option" where
  "QueryUnescape [] = Some []"
| "QueryUnescape (c # cs) =
     (if c = CHR ''%''
      then (case cs of
              h1 # h2 # rest \<Rightarrow>
                (if ishex h1 \<and> ishex h2
                 then map_option ((#) (char_of (unhex h1 * 16 + unhex h2))) (QueryUnescape rest)
                 else None)
            | _ \<Rightarrow> None)
      else if c = CHR ''+'' then map_option ((#) CHR '' '') (QueryUnescape cs)
      else map_option ((#) c) (QueryUnescape cs))"

text \<open>\<open>strings.Cut\<close> at a single byte: the text before and after its first occurrence.\<close>

definition Cut :: "string \<Rightarrow> char \<Rightarrow> string \<times> string" where
  "Cut s sep = (takeWhile (\<lambda>c. c \<noteq> sep) s, drop 1 (dropWhile (\<lambda>c. c \<noteq> sep) s))"

text \<open>
  \<open>url.ParseQuery\<close> (Go 1.17 and later): the pairs that parse are collected, and the
  first error met is returned beside them.  The formatter only tests an error for nil, so
  an error is kept by its kind, without the offending text.
\<close>

definition first_error :: "string option \<Rightarrow> string option \<Rightarrow> string option" where
  "first_error err err1 = (if err = None then err1 else err)"

function parseQuery :: "Values \<Rightarrow> string \<Rightarrow> string option \<Rightarrow> Values \<times> string option" where
  "parseQuery m query err =
     (if query = [] then (m, err)
      else (let (key, rest) = Cut query (CHR ''&'') in
            if CHR '';'' \<in> set key
            then parseQuery m rest (Some ''invalid semicolon separator in query'')
            else if key = [] then parseQuery m rest err
            else (let (k, v) = Cut key (CHR ''='') in
                  case QueryUnescape k of
                    None \<Rightarrow> parseQuery m rest (first_error err (Some ''invalid URL escape''))
                  | Some k' \<Rightarrow>
                      (case QueryUnescape v of
                         None \<Rightarrow> parseQuery m rest (first_error err (Some ''invalid URL escape''))
                       | Some v' \<Rightarrow> parseQuery (Values_append m k' [v']) rest err))))"
  by pat_completeness auto
termination
proof -
  have shorter: "length r < length q"
    if "q \<noteq> []" and "(k, r) = Cut q (CHR ''&'')" for q k r :: string
  proof -
    have "length (dropWhile (\<lambda>c. c \<noteq> CHR ''&'') q) \<le> length q"
      by (rule length_dropWhile_le)
    moreover have "r = drop 1 (dropWhile (\<lambda>c. c \<noteq> CHR ''&'') q)"
      using that(2) by (simp add: Cut_def)
    ultimately show ?thesis
      using that(1) by (cases "dropWhile (\<lambda>c. c \<noteq> CHR ''&'') q") auto
  qed
  show ?thesis
    by (relation "measure (\<lambda>(m, query, err). length query)") (auto dest: shorter)
qed

declare parseQuery.simps [simp del]

definition ParseQuery :: "string \<Rightarrow> Values \<times> string option" where
  "ParseQuery query = parseQuery [] query None"

text \<open>
  The fields of \<open>*http.Request\<close> that the enricher reads or changes.  \<open>URL\<close> is a pointer
  and may be nil; \<open>PostForm\<close> and \<open>Form\<close> are nil (\<open>None\<close>) until \<open>ParseForm\<close> fills them.
  A body is a reader: the bytes still unread, and whether reading past them ends in an
  error instead of the end of the stream.
\<close>

record url_URL =
  Path :: string
  RawQuery :: string

datatype http_Body = NoBody | Reader string bool

record http_Request =
  RemoteAddr :: string
  Method :: string
  URL :: "url_URL option"
  Header :: Values
  PostForm :: "Values option"
  Form :: "Values option"
  Body :: http_Body

text \<open>
  \<open>Request.ParseForm\<close> of net/http.  The parsing of the body, \<open>parsePostForm\<close> (which
  depends on the media type and reads the body), is the parameter \<open>ppf\<close>: it returns the
  values, the error and the request with its body read.  What is modelled in full is the
  caching: a request whose \<open>PostForm\<close> and \<open>Form\<close> are already set is not parsed again,
  and reports no error.
\<close>

type_synonym parsePostForm_t = "http_Request \<Rightarrow> (Values option \<times> string option) \<times> http_Request"

definition ParseForm_post :: "parsePostForm_t \<Rightarrow> http_Request \<Rightarrow> string option \<times> http_Request" where
  "ParseForm_post ppf r =
     (if PostForm r = None
      then (let ((vs, err), r1) =
                  (if http_Request.Method r = ''POST'' \<or> http_Request.Method r = ''PUT''
                      \<or> http_Request.Method r = ''PATCH''
                   then ppf r else ((None, None), r));
                r2 = r1\<lparr>PostForm := vs\<rparr>
            in (err, if PostForm r2 = None then r2\<lparr>PostForm := Some []\<rparr> else r2))
      else (None, r))"

definition ParseForm_form :: "string option \<Rightarrow> http_Request \<Rightarrow> string option \<times> http_Request" where
  "ParseForm_form err r =
     (if Form r = None
      then (let form0 = (case PostForm r of
                           Some pf \<Rightarrow> if length pf > 0 then Some (copyValues [] pf) else None
                         | None \<Rightarrow> None);
                (newValues, err') =
                  (case URL r of
                     Some u \<Rightarrow> (let (vs, e) = ParseQuery (RawQuery u) in (vs, first_error err e))
                   | None \<Rightarrow> ([], err))
            in (err', r\<lparr>Form := Some (case form0 of None \<Rightarrow> newValues
                                         | Some f \<Rightarrow> copyValues f newValues)\<rparr>))
      else (err, r))"

definition ParseForm :: "parsePostForm_t \<Rightarrow> http_Request \<Rightarrow> string option \<times> http_Request" where
  "ParseForm ppf r = (let (err, r1) = ParseForm_post ppf r in ParseForm_form err r1)"

section \<open>Field values and the records of the formatter\<close>

text \<open>
  The values an entry can carry in its \<open>Data\<close> map (Go's \<open>interface{}\<close>): the kinds the
  formatter tells apart, the shapes it builds itself (\<open>VStrings\<close> for a string slice,
  \<open>VFields\<close> for a nested \<open>logrus.Fields\<close>), and \<open>VOpaque\<close> for any other value, which
  carries its rendering under \<open>%v\<close> and whether the JSON encoder accepts it.  A request is
  a pointer and may be nil.
\<close>

datatype gvalue =
    VNil
  | VString string
  | VInt int
  | VBool bool
  | VStrings "string list"
  | VError goerror
  | VRequest "http_Request option"
  | VFields "(string \<times> gvalue) list"
  | VOpaque string bool

text \<open>
  The fields of \<open>*logrus.Entry\<close> that \<open>Format\<close> reads.  \<open>Data\<close> is a Go map, given as the
  association list of one visiting order; \<open>Time\<close> is an instant, rendered by the library;
  \<open>ReportCaller\<close> says that the entry has a logger that reports callers; \<open>Buffer\<close> is the
  content of the attached buffer, \<open>None\<close> when the pointer is nil.
\<close>

record runtime_Frame =
  Function :: string
  File :: string
  Line :: int

record logrus_Entry =
  Data :: "(string \<times> gvalue) list"
  Time :: nat
  Level :: "32 word"
  Caller :: "runtime_Frame option"
  ReportCaller :: bool
  Message :: string
  Buffer :: "string option"

type_synonym Fields = "string \<rightharpoonup> gvalue"

record RequestData =
  IP :: string
  Method :: string
  Path :: string
  Headers :: "string \<rightharpoonup> string"
  Status :: string
  Duration :: string
  Param :: Fields

record LogsV1Formatter =
  TimeLayout :: string
  Service :: string
  Environment :: string

record LogsV1 =
  Schema :: string
  Time :: string
  Level :: string
  Service :: string
  Channel :: string
  Environment :: string
  User :: string
  Message :: string
  Context :: Fields
  Request :: "RequestData option"

definition SchemaGeneralLogsV1 :: string where
  "SchemaGeneralLogsV1 = ''general.logs.v1''"

definition SchemaHTTPRequestV1 :: string where
  "SchemaHTTPRequestV1 = ''http.request.v1''"

definition NewFormatter :: "string \<Rightarrow> string \<Rightarrow> LogsV1Formatter" where
  "NewFormatter service env =
     \<lparr>TimeLayout = ''2006-01-02T15:04:05.999Z07:00'',
      LogsV1Formatter.Service = service,
      LogsV1Formatter.Environment = env\<rparr>"

text \<open>The zero record that the pool's \<open>New\<close> function allocates: \<open>&LogsV1{}\<close>.\<close>

definition LogsV1_zero :: LogsV1 where
  "LogsV1_zero =
     \<lparr>Schema = [], Time = [], Level = [], Service = [], Channel = [], Environment = [],
      User = [], Message = [], Context = Map.empty, Request = None\<rparr>"

text \<open>
  The JSON document the encoder is given, as the struct tags of \<open>LogsV1\<close> and
  \<open>RequestData\<close> lay it out: the fields in declaration order under their tag names, and
  \<open>request\<close> left out when the pointer is nil (\<open>omitempty\<close>).
\<close>

datatype jdoc =
    JString string
  | JHeaders "string \<rightharpoonup> string"
  | JFields Fields
  | JStruct "(string \<times> jdoc) list"

definition Marshal_RequestData :: "RequestData \<Rightarrow> jdoc" where
  "Marshal_RequestData rd =
     JStruct [(''ip'', JString (IP rd)), (''method'', JString (Method rd)),
              (''path'', JString (Path rd)), (''header'', JHeaders (Headers rd)),
              (''status'', JString (Status rd)), (''duration'', JString (Duration rd)),
              (''param'', JFields (Param rd))]"

definition Marshal_LogsV1 :: "LogsV1 \<Rightarrow> jdoc" where
  "Marshal_LogsV1 d =
     JStruct ([(''schema'', JString (Schema d)), (''t'', JString (Time d)),
               (''l'', JString (Level d)), (''s'', JString (Service d)),
               (''c'', JString (Channel d)), (''e'', JString (Environment d)),
               (''u'', JString (User d)), (''m'', JString (Message d)),
               (''ctx'', JFields (Context d))]
              @ (case Request d of None \<Rightarrow> [] | Some rd \<Rightarrow> [(''request'', Marshal_RequestData rd)]))"

text \<open>Reading a field of a JSON object; \<open>None\<close> when the document has no such key.\<close>

definition jget :: "jdoc \<Rightarrow> string \<Rightarrow> jdoc option" where
  "jget d k = (case d of JStruct fs \<Rightarrow> map_of fs k | _ \<Rightarrow> None)"

text \<open>
  The library functions the formatter calls and this development does not define: the
  rendering of a time under a layout, \<open>%v\<close> for composite values, the body parser of
  \<open>ParseForm\<close>, and the JSON decoder and encoder (the encoder ends its output with a
  newline, and fails on a value it cannot serialize).  Every theorem below holds for
  every choice of them.
\<close>

record lib =
  time_Format :: "nat \<Rightarrow> string \<Rightarrow> string"
  fmt_Sprint :: "gvalue \<Rightarrow> string"
  parsePostForm :: parsePostForm_t
  json_Decode :: "string \<Rightarrow> (string \<times> gvalue) list option"
  json_Encode :: "jdoc \<Rightarrow> string + string"

text \<open>\<open>fmt.Sprintf("%v", v)\<close>.\<close>

definition Sprint_v :: "lib \<Rightarrow> gvalue \<Rightarrow> string" where
  "Sprint_v L v =
     (case v of
        VNil \<Rightarrow> ''<nil>''
      | VString s \<Rightarrow> s
      | VInt i \<Rightarrow> Itoa i
      | VBool b \<Rightarrow> (if b then ''true'' else ''false'')
      | VStrings xs \<Rightarrow> ''['' @ Join xs '' '' @ '']''
      | VError err \<Rightarrow> Error err
      | VOpaque s enc \<Rightarrow> s
      | _ \<Rightarrow> fmt_Sprint L v)"

section \<open>The request enricher\<close>

text \<open>\<open>strings.ToLower\<close> on the ASCII letters; header names are ASCII tokens.\<close>

definition ToLower :: "string \<Rightarrow> string" where
  "ToLower s = map (\<lambda>c. if 65 \<le> byte c \<and> byte c \<le> 90 then char_of (byte c + 32) else c) s"

text \<open>
  The three loops of \<open>richRequest\<close>.  A header or parameter whose value list is empty
  makes \<open>v[0]\<close> panic.
\<close>

definition header_value :: "string list \<Rightarrow> panic + string" where
  "header_value v =
     (if length v > 1 then Inr (Join v '', '')
      else (case v of [] \<Rightarrow> Inl IndexOutOfRange | x # _ \<Rightarrow> Inr x))"

fun headers_loop :: "Values \<Rightarrow> (string \<rightharpoonup> string) \<Rightarrow> panic + (string \<rightharpoonup> string)" where
  "headers_loop [] h = Inr h"
| "headers_loop ((k, v) # rest) h =
     (case header_value v of
        Inl p \<Rightarrow> Inl p
      | Inr x \<Rightarrow> headers_loop rest (h(ToLower k \<mapsto> x)))"

definition param_value :: "string list \<Rightarrow> panic + gvalue" where
  "param_value v =
     (if length v > 1 then Inr (VStrings v)
      else (case v of [] \<Rightarrow> Inl IndexOutOfRange | x # _ \<Rightarrow> Inr (VString x)))"

fun params_loop :: "Values \<Rightarrow> Fields \<Rightarrow> panic + Fields" where
  "params_loop [] p = Inr p"
| "params_loop ((k, v) # rest) p =
     (case param_value v of
        Inl e \<Rightarrow> Inl e
      | Inr x \<Rightarrow> params_loop rest (p(k \<mapsto> x)))"

fun body_loop :: "(string \<times> gvalue) list \<Rightarrow> Fields \<Rightarrow> Fields" where
  "body_loop [] p = p"
| "body_loop ((k, v) # rest) p = body_loop rest (p(k \<mapsto> v))"

text \<open>Reading a Go map of strings at a key that may be absent gives the empty string.\<close>

definition header_at :: "(string \<rightharpoonup> string) \<Rightarrow> string \<Rightarrow> string" where
  "header_at h k = (case h k of None \<Rightarrow> [] | Some v \<Rightarrow> v)"

text \<open>The parameters of the query string: \<open>req.URL.Query()\<close> drops the parse error.\<close>

definition richRequest_query :: "url_URL \<Rightarrow> panic + Fields" where
  "richRequest_query u =
     (let q = fst (ParseQuery (RawQuery u)) in
      if length q > 0 then params_loop q Map.empty else Inr Map.empty)"

text \<open>The parameters of the form: only when \<open>ParseForm\<close> reports no error.\<close>

definition richRequest_form :: "lib \<Rightarrow> http_Request \<Rightarrow> Fields \<Rightarrow> (panic + Fields) \<times> http_Request" where
  "richRequest_form L req p =
     (let (err, req1) = ParseForm (parsePostForm L) req in
      if err = None
      then (case PostForm req1 of
              Some postForm \<Rightarrow>
                (if length postForm > 0 then (params_loop postForm p, req1) else (Inr p, req1))
            | None \<Rightarrow> (Inr p, req1))
      else (Inr p, req1))"

text \<open>
  The parameters of a JSON body.  \<open>ioutil.ReadAll\<close> on a nil body panics; when it
  succeeds the body is replaced by a fresh reader over the bytes read.
\<close>

definition richRequest_json ::
  "lib \<Rightarrow> (string \<rightharpoonup> string) \<Rightarrow> http_Request \<Rightarrow> Fields \<Rightarrow> (panic + Fields) \<times> http_Request" where
  "richRequest_json L hs req p =
     (if Contains (header_at hs ''content-type'') ''application/json''
      then (case Body req of
              NoBody \<Rightarrow> (Inl NilDereference, req)
            | Reader tmpBody fails \<Rightarrow>
                (if fails then (Inr p, req\<lparr>Body := Reader [] True\<rparr>)
                 else (case json_Decode L tmpBody of
                         Some body \<Rightarrow> (Inr (body_loop body p), req\<lparr>Body := Reader tmpBody False\<rparr>)
                       | None \<Rightarrow> (Inr p, req\<lparr>Body := Reader tmpBody False\<rparr>))))
      else (Inr p, req))"

text \<open>
  \<open>richRequest\<close>.  The request is a pointer, so the function also returns the request as
  it leaves it (forms parsed, body read and restored).  A nil \<open>URL\<close> panics in the
  struct literal, before anything is changed.
\<close>

definition richRequest ::
  "lib \<Rightarrow> http_Request \<Rightarrow> string \<Rightarrow> string \<Rightarrow> (panic + RequestData) \<times> http_Request" where
  "richRequest L req status duration =
     (case URL req of
        None \<Rightarrow> (Inl NilDereference, req)
      | Some u \<Rightarrow>
          (case headers_loop (Header req) Map.empty of
             Inl e \<Rightarrow> (Inl e, req)
           | Inr hs \<Rightarrow>
               (case richRequest_query u of
                  Inl e \<Rightarrow> (Inl e, req)
                | Inr p1 \<Rightarrow>
                    (case richRequest_form L req p1 of
                       (Inl e, req1) \<Rightarrow> (Inl e, req1)
                     | (Inr p2, req1) \<Rightarrow>
                         (case richRequest_json L hs req1 p2 of
                            (Inl e, req2) \<Rightarrow> (Inl e, req2)
                          | (Inr p3, req2) \<Rightarrow>
                              (Inr \<lparr>IP = parseIP (RemoteAddr req),
                                    Method = http_Request.Method req,
                                    Path = url_URL.Path u,
                                    Headers = hs,
                                    Status = status,
                                    Duration = duration,
                                    Param = p3\<rparr>, req2))))))"

section \<open>The formatter\<close>

definition HasCaller :: "logrus_Entry \<Rightarrow> bool" where
  "HasCaller entry = (ReportCaller entry \<and> Caller entry \<noteq> None)"

text \<open>\<open>Level.String\<close> of logrus.\<close>

definition Level_String :: "32 word \<Rightarrow> string" where
  "Level_String level =
     (if level = 6 then ''trace'' else if level = 5 then ''debug''
      else if level = 4 then ''info'' else if level = 3 then ''warning''
      else if level = 2 then ''error'' else if level = 1 then ''fatal''
      else if level = 0 then ''panic'' else ''unknown'')"

text \<open>
  The local variables of \<open>Format\<close> that the loop over \<open>entry.Data\<close> assigns
  (\<open>ctxt\<close> is the variable \<open>context\<close> of the source).
\<close>

record locals =
  channel :: string
  uid :: string
  status :: string
  duration :: string
  ctxt :: Fields

definition errData :: "string \<Rightarrow> string list \<Rightarrow> gvalue" where
  "errData msg trace =
     VFields ((''msg'', VString msg) # (if length trace > 0 then [(''trace'', VStrings trace)] else []))"

fun Format_loop :: "lib \<Rightarrow> int \<Rightarrow> (string \<times> gvalue) list \<Rightarrow> locals \<Rightarrow> panic + locals" where
  "Format_loop L maxST [] c = Inr c"
| "Format_loop L maxST ((k, v) # rest) c =
     (if k = ''channel''
      then Format_loop L maxST rest (c\<lparr>channel := (case v of VString s \<Rightarrow> s | _ \<Rightarrow> [])\<rparr>)
      else if k = ''request'' then Format_loop L maxST rest c
      else if k = ''user'' then Format_loop L maxST rest (c\<lparr>uid := Sprint_v L v\<rparr>)
      else if k = ''status'' then Format_loop L maxST rest (c\<lparr>status := Sprint_v L v\<rparr>)
      else if k = ''duration'' then Format_loop L maxST rest (c\<lparr>duration := Sprint_v L v\<rparr>)
      else (case v of
              VError err \<Rightarrow>
                (case extractError maxST err of
                   Inl e \<Rightarrow> Inl e
                 | Inr (msg, trace) \<Rightarrow>
                     Format_loop L maxST rest (c\<lparr>ctxt := (ctxt c)(k \<mapsto> errData msg trace)\<rparr>))
            | _ \<Rightarrow> Format_loop L maxST rest (c\<lparr>ctxt := (ctxt c)(k \<mapsto> v)\<rparr>)))"

text \<open>The caller keys are written to the context before the loop, so a field may replace them.\<close>

definition caller_context :: "logrus_Entry \<Rightarrow> Fields" where
  "caller_context entry =
     (if HasCaller entry
      then (case Caller entry of
              Some caller \<Rightarrow>
                [''file'' \<mapsto> VString (File caller @ '':'' @ Itoa (Line caller)),
                 ''func'' \<mapsto> VString (Function caller)]
            | None \<Rightarrow> Map.empty)
      else Map.empty)"

definition Format_locals :: "lib \<Rightarrow> int \<Rightarrow> logrus_Entry \<Rightarrow> panic + locals" where
  "Format_locals L maxST entry =
     Format_loop L maxST (Data entry)
       \<lparr>channel = [], uid = [], status = [], duration = [], ctxt = caller_context entry\<rparr>"

text \<open>
  The assignments to the pooled record \<open>data\<close> between \<open>Get\<close> and the look-up of the
  request: eight fields; \<open>Schema\<close> is assigned later, \<open>Request\<close> only when a request is
  attached.
\<close>

definition Format_populate :: "lib \<Rightarrow> LogsV1Formatter \<Rightarrow> logrus_Entry \<Rightarrow> locals \<Rightarrow> LogsV1 \<Rightarrow> LogsV1" where
  "Format_populate L af entry c data =
     data\<lparr>Time := time_Format L (logrus_Entry.Time entry) (TimeLayout af),
          Level := Level_String (logrus_Entry.Level entry),
          Service := LogsV1Formatter.Service af,
          Channel := channel c,
          Environment := LogsV1Formatter.Environment af,
          Message := logrus_Entry.Message entry,
          Context := ctxt c,
          User := uid c\<rparr>"

text \<open>The entry holds the request by pointer: what \<open>richRequest\<close> changes stays in the entry.\<close>

fun Data_set_request :: "(string \<times> gvalue) list \<Rightarrow> http_Request \<Rightarrow> (string \<times> gvalue) list" where
  "Data_set_request [] req = []"
| "Data_set_request ((k, v) # rest) req =
     (if k = ''request'' then (k, VRequest (Some req)) # rest
      else (k, v) # Data_set_request rest req)"

text \<open>
  The look-up of \<open>entry.Data["request"]\<close> and the type assertion to \<open>*http.Request\<close>.
  The result is the schema (or the panic), the record and the entry.
\<close>

definition Format_request ::
  "lib \<Rightarrow> logrus_Entry \<Rightarrow> locals \<Rightarrow> LogsV1 \<Rightarrow> (panic + string) \<times> LogsV1 \<times> logrus_Entry" where
  "Format_request L entry c data =
     (case map_of (Data entry) ''request'' of
        Some (VRequest None) \<Rightarrow> (Inl NilDereference, data, entry)
      | Some (VRequest (Some req)) \<Rightarrow>
          (let (r, req') = richRequest L req (status c) (duration c);
               entry' = entry\<lparr>Data := Data_set_request (Data entry) req'\<rparr>
           in case r of
                Inl e \<Rightarrow> (Inl e, data, entry')
              | Inr rd \<Rightarrow> (Inr SchemaHTTPRequestV1, data\<lparr>Request := Some rd\<rparr>, entry'))
      | _ \<Rightarrow> (Inr SchemaGeneralLogsV1, data, entry))"

datatype format_error = Panicked panic | EncodeFailed string

text \<open>
  \<open>Format\<close> up to the assignment of \<open>data.Schema\<close>, for the record \<open>data0\<close> that the
  pool hands out.  It returns the record that goes to the encoder (or the panic), the
  record given back to the pool by the deferred \<open>Put\<close> (\<open>None\<close> when a panic came before
  \<open>Get\<close>), and the entry.
\<close>

definition Format_build ::
  "lib \<Rightarrow> int \<Rightarrow> LogsV1Formatter \<Rightarrow> LogsV1 \<Rightarrow> logrus_Entry
     \<Rightarrow> (panic + LogsV1) \<times> LogsV1 option \<times> logrus_Entry" where
  "Format_build L maxST af data0 entry =
     (case Format_locals L maxST entry of
        Inl e \<Rightarrow> (Inl e, None, entry)
      | Inr c \<Rightarrow>
          (case Format_request L entry c (Format_populate L af entry c data0) of
             (Inl e, data1, entry1) \<Rightarrow> (Inl e, Some data1, entry1)
           | (Inr schema, data1, entry1) \<Rightarrow>
               (Inr (data1\<lparr>Schema := schema\<rparr>), Some (data1\<lparr>Schema := schema\<rparr>), entry1)))"

text \<open>
  The encoding step and the result of \<open>Format\<close>.  The schema named in the wrapped error
  is the one just stored in the record.  The bytes returned are those of the buffer: an
  attached buffer keeps what it held, and the record is written after it.
\<close>

definition Format_with ::
  "lib \<Rightarrow> int \<Rightarrow> LogsV1Formatter \<Rightarrow> LogsV1 \<Rightarrow> logrus_Entry
     \<Rightarrow> (format_error + string) \<times> LogsV1 option \<times> logrus_Entry" where
  "Format_with L maxST af data0 entry =
     (case Format_build L maxST af data0 entry of
        (Inl e, put, entry1) \<Rightarrow> (Inl (Panicked e), put, entry1)
      | (Inr data, put, entry1) \<Rightarrow>
          (case json_Encode L (Marshal_LogsV1 data) of
             Inl err \<Rightarrow>
               (Inl (EncodeFailed (''json encode '' @ Schema data @ '' log: '' @ err)), put, entry1)
           | Inr bytes \<Rightarrow>
               (case Buffer entry1 of
                  Some b \<Rightarrow> (Inr (b @ bytes), put, entry1\<lparr>Buffer := Some (b @ bytes)\<rparr>)
                | None \<Rightarrow> (Inr bytes, put, entry1))))"

text \<open>
  \<open>logsV1Pool\<close>: the records given back and not yet reused.  \<open>Get\<close> takes the record put
  last, or allocates a zero record when the pool is empty; this is the order a
  \<open>sync.Pool\<close> follows for calls made one after the other on one goroutine.
\<close>

definition Pool_Get :: "LogsV1 list \<Rightarrow> LogsV1 \<times> LogsV1 list" where
  "Pool_Get pool = (case pool of [] \<Rightarrow> (LogsV1_zero, []) | d # ds \<Rightarrow> (d, ds))"

definition Format ::
  "lib \<Rightarrow> int \<Rightarrow> LogsV1Formatter \<Rightarrow> LogsV1 list \<Rightarrow> logrus_Entry
     \<Rightarrow> (format_error + string) \<times> LogsV1 list \<times> logrus_Entry" where
  "Format L maxST af pool entry =
     (let (data0, pool1) = Pool_Get pool;
          (r, put, entry1) = Format_with L maxST af data0 entry
      in (r, (case put of None \<Rightarrow> pool | Some d \<Rightarrow> d # pool1), entry1))"

text \<open>The JSON document that a call hands to the encoder, when it gets that far.\<close>

definition Format_doc :: "lib \<Rightarrow> int \<Rightarrow> LogsV1Formatter \<Rightarrow> LogsV1 \<Rightarrow> logrus_Entry \<Rightarrow> jdoc option" where
  "Format_doc L maxST af data0 entry =
     (case fst (Format_build L maxST af data0 entry) of
        Inl e \<Rightarrow> None
      | Inr data \<Rightarrow> Some (Marshal_LogsV1 data))"

section \<open>Notions used to state the properties\<close>

text \<open>
  The frames the Go runtime reports: a function name is not empty, has no newline and
  does not begin with a tab, and a file name has no newline.  For such a frame, the entry
  of the trace is its rendering on one line.
\<close>

definition wf_frame :: "Frame \<Rightarrow> bool" where
  "wf_frame f = (frame_name f \<noteq> [] \<and> CHR 0x0A \<notin> set (frame_name f)
                 \<and> hd (frame_name f) \<noteq> CHR 0x09 \<and> CHR 0x0A \<notin> set (frame_file f))"

definition frame_entry :: "Frame \<Rightarrow> string" where
  "frame_entry f = frame_name f @ '' '' @ frame_file f @ '':'' @ Itoa (frame_line f)"

text \<open>An example frame, at a given line.\<close>

definition example_frame :: "int \<Rightarrow> Frame" where
  "example_frame n = \<lparr>frame_name = ''main.run'', frame_file = ''/src/main.go'', frame_line = n\<rparr>"

text \<open>
  Example inputs: a choice of the library functions (a fixed time stamp, no form body, a
  decoder that accepts no body, an encoder that accepts every document), an entry with
  given fields, and a request with a given query string and preset form.
\<close>

definition example_lib :: lib where
  "example_lib =
     \<lparr>time_Format = (\<lambda>t layout. ''2026-01-02T03:04:05.000Z''),
      fmt_Sprint = (\<lambda>v. ''?''),
      parsePostForm = (\<lambda>r. ((None, None), r)),
      json_Decode = (\<lambda>b. None),
      json_Encode = (\<lambda>d. Inr ''{}'')\<rparr>"

definition example_entry :: "(string \<times> gvalue) list \<Rightarrow> logrus_Entry" where
  "example_entry ds =
     \<lparr>Data = ds, logrus_Entry.Time = 0, logrus_Entry.Level = 4, Caller = None,
      ReportCaller = False, logrus_Entry.Message = ''hello'', Buffer = None\<rparr>"

definition example_request :: "string \<Rightarrow> Values option \<Rightarrow> http_Request" where
  "example_request query form =
     \<lparr>RemoteAddr = ''1.2.3.4:1234'', http_Request.Method = ''POST'',
      URL = Some \<lparr>url_URL.Path = ''/api'', RawQuery = query\<rparr>,
      Header = [(''X-Test'', [''1''])],
      PostForm = form, Form = None, Body = Reader [] False\<rparr>"

section \<open>Properties of the IP extractor\<close>

lemma SplitHostPort_tail_err:
  "SplitHostPort_tail hp h i j k = (host, port, Some e) \<Longrightarrow> host = []"
  by (auto simp: SplitHostPort_tail_def addrErr_def split: if_splits)

lemma SplitHostPort_err_host:
  "SplitHostPort hp = (host, port, Some e) \<Longrightarrow> host = []"
  by (auto simp: SplitHostPort_def addrErr_def Let_def split: if_splits
           dest: SplitHostPort_tail_err)

lemma LastIndexByteString_range: "LastIndexByteString s b < int (length s)"
  by (induction s) (auto simp: Let_def)

lemma LastIndexByteString_nth:
  "0 \<le> LastIndexByteString s b \<Longrightarrow> s ! nat (LastIndexByteString s b) = b"
  by (induction s) (auto simp: Let_def nat_add_distrib split: if_splits)

lemma IndexByteString_nth:
  "0 \<le> IndexByteString s b \<Longrightarrow> s ! nat (IndexByteString s b) = b"
  by (induction s) (auto simp: Let_def nat_add_distrib split: if_splits)

lemma IndexByteString_absent: "IndexByteString s b < 0 \<longleftrightarrow> b \<notin> set s"
  by (induction s) (auto simp: Let_def)

lemma split_at_nth: "n < length s \<Longrightarrow> s = take n s @ s ! n # drop (Suc n) s"
  by (simp add: id_take_nth_drop)

text \<open>
  When the library accepts an address without a leading bracket, the address is the host,
  a colon and the port, and the host has no colon.
\<close>

lemma SplitHostPort_plain_ok:
  assumes "SplitHostPort hp = (host, port, None)" "hd hp \<noteq> CHR ''[''"
  shows "hp = host @ '':'' @ port \<and> CHR '':'' \<notin> set host"
proof -
  let ?i = "LastIndexByteString hp (CHR '':'')"
  from assms have i: "0 \<le> ?i"
    by (auto simp: SplitHostPort_def addrErr_def Let_def split: if_splits)
  from assms i have h: "host = take (nat ?i) hp" and p: "port = drop (nat (?i + 1)) hp"
    and nc: "IndexByteString (take (nat ?i) hp) (CHR '':'') < 0"
    by (auto simp: SplitHostPort_def SplitHostPort_tail_def addrErr_def Let_def
                   slice_to_def slice_from_def split: if_splits)
  have lt: "nat ?i < length hp"
    using LastIndexByteString_range[of hp "CHR '':''"] i by linarith
  have "hp = take (nat ?i) hp @ hp ! nat ?i # drop (Suc (nat ?i)) hp"
    using lt by (rule split_at_nth)
  moreover have "hp ! nat ?i = CHR '':''" using i by (rule LastIndexByteString_nth)
  moreover have "Suc (nat ?i) = nat (?i + 1)" using i by simp
  ultimately show ?thesis using h p nc by (simp add: IndexByteString_absent)
qed

text \<open>When it accepts a bracketed address, the host is what stands between the brackets.\<close>

lemma SplitHostPort_bracket_ok:
  assumes "SplitHostPort hp = (host, port, None)" "hd hp = CHR ''[''"
  shows "hp = ''['' @ host @ '']:'' @ port"
proof -
  let ?i = "LastIndexByteString hp (CHR '':'')"
  let ?e = "IndexByteString hp (CHR '']'')"
  from assms have i: "0 \<le> ?i"
    by (auto simp: SplitHostPort_def addrErr_def Let_def split: if_splits)
  from assms i have e: "0 \<le> ?e" and ei: "?e + 1 = ?i"
    by (auto simp: SplitHostPort_def addrErr_def Let_def split: if_splits)
  from assms i e ei have h: "host = take (nat ?e - 1) (drop 1 hp)"
    and p: "port = drop (nat (?i + 1)) hp"
    by (auto simp: SplitHostPort_def SplitHostPort_tail_def addrErr_def Let_def
                   slice_def slice_from_def split: if_splits)
  have lt: "nat ?i < length hp"
    using LastIndexByteString_range[of hp "CHR '':''"] i by linarith
  have ne: "hp \<noteq> []" using lt by auto
  have e1: "1 \<le> ?e"
  proof (rule ccontr)
    assume "\<not> 1 \<le> ?e"
    then have "?e = 0" using e by simp
    then have "hp ! 0 = CHR '']''" using IndexByteString_nth[of hp "CHR '']''"] by simp
    then show False using assms(2) ne by (cases hp) auto
  qed
  have a: "hp = take (nat ?e) hp @ hp ! nat ?e # drop (Suc (nat ?e)) hp"
    using lt ei e by (intro split_at_nth) linarith
  have b: "drop (Suc (nat ?e)) hp = hp ! nat ?i # drop (Suc (nat ?i)) hp"
  proof -
    have "Suc (nat ?e) = nat ?i" using ei e by linarith
    then show ?thesis using lt by (simp add: Cons_nth_drop_Suc)
  qed
  have c: "take (nat ?e) hp = CHR ''['' # take (nat ?e - 1) (drop 1 hp)"
    using e1 ne assms(2) by (cases hp; cases "nat ?e") auto
  have "hp ! nat ?e = CHR '']''" using e by (rule IndexByteString_nth)
  moreover have "hp ! nat ?i = CHR '':''" using i by (rule LastIndexByteString_nth)
  moreover have "Suc (nat ?i) = nat (?i + 1)" using i by simp
  ultimately show ?thesis using a b c h p by (metis append_Cons append_Nil)
qed

text \<open>
  Claim C5.  For every raw address: when it starts with a bracket or has exactly one
  colon, \<open>parseIP\<close> returns the host that the standard host:port parsing gives, and the
  empty string when that parsing fails; otherwise it returns the address unchanged.  The
  four addresses of the specification map as it says.
\<close>

theorem parseIP_spec:
  "parseIP a =
     (if HasPrefix a ''['' \<or> Count a '':'' = 1
      then (case SplitHostPort a of (host, port, err) \<Rightarrow> if err = None then host else [])
      else a)
   \<and> parseIP ''1.1.1.1'' = ''1.1.1.1''
   \<and> parseIP ''1.1.1.1:19123'' = ''1.1.1.1''
   \<and> parseIP ''240a:6b:100:2aac:e4a3:8908:b1f5:b0bd'' = ''240a:6b:100:2aac:e4a3:8908:b1f5:b0bd''
   \<and> parseIP ''[240a:6b:100:2aac:e4a3:8908:b1f5:b0bd]:2155''
       = ''240a:6b:100:2aac:e4a3:8908:b1f5:b0bd''"
proof -
  have g: "parseIP a =
     (if HasPrefix a ''['' \<or> Count a '':'' = 1
      then (case SplitHostPort a of (host, port, err) \<Rightarrow> if err = None then host else [])
      else a)"
    by (cases "SplitHostPort a") (auto simp: parseIP_def dest: SplitHostPort_err_host)
  have e1: "parseIP ''1.1.1.1'' = ''1.1.1.1''" by code_simp
  have e2: "parseIP ''1.1.1.1:19123'' = ''1.1.1.1''" by code_simp
  have e3: "parseIP ''240a:6b:100:2aac:e4a3:8908:b1f5:b0bd''
              = ''240a:6b:100:2aac:e4a3:8908:b1f5:b0bd''" by code_simp
  have e4: "parseIP ''[240a:6b:100:2aac:e4a3:8908:b1f5:b0bd]:2155''
              = ''240a:6b:100:2aac:e4a3:8908:b1f5:b0bd''" by code_simp
  from g e1 e2 e3 e4 show ?thesis by blast
qed

text \<open>The general part of C5 at an address that the parsing rejects: the result is empty.\<close>

theorem parseIP_spec_witness:
  "HasPrefix ''[::1]'' ''['' \<and> SplitHostPort ''[::1]'' = ([], [], Some missingPort)
   \<and> parseIP ''[::1]'' = []"
proof -
  have a: "HasPrefix ''[::1]'' ''[''" by code_simp
  have b: "SplitHostPort ''[::1]'' = ([], [], Some missingPort)" by code_simp
  from a b parseIP_spec [of "''[::1]''"] show ?thesis by simp
qed

section \<open>Properties of the error extractor\<close>

lemma ReplaceAll_skip:
  "CHR 0x0A \<notin> set s \<Longrightarrow>
   ReplaceAll (s @ t) [CHR 0x0A, CHR 0x09] new = s @ ReplaceAll t [CHR 0x0A, CHR 0x09] new"
  by (induction s) (auto simp: HasPrefix_def)

lemma ReplaceAll_hit:
  "ReplaceAll (CHR 0x0A # CHR 0x09 # t) [CHR 0x0A, CHR 0x09] new
     = new @ ReplaceAll t [CHR 0x0A, CHR 0x09] new"
  by (simp add: HasPrefix_def)

lemma ReplaceAll_miss:
  "c \<noteq> CHR 0x09 \<Longrightarrow>
   ReplaceAll (CHR 0x0A # c # t) [CHR 0x0A, CHR 0x09] new
     = CHR 0x0A # ReplaceAll (c # t) [CHR 0x0A, CHR 0x09] new"
  by (simp add: HasPrefix_def)

lemma Split_no_sep: "CHR 0x0A \<notin> set s \<Longrightarrow> Split s [CHR 0x0A] = [s]"
  by (induction s) (auto simp: HasPrefix_def)

lemma Split_at_sep:
  "CHR 0x0A \<notin> set s \<Longrightarrow> Split (s @ CHR 0x0A # t) [CHR 0x0A] = s # Split t [CHR 0x0A]"
  by (induction s) (auto simp: HasPrefix_def)

lemma digit_not_newline: "d < 10 \<Longrightarrow> digit d \<noteq> CHR 0x0A"
proof
  assume d: "d < 10" and "digit d = CHR 0x0A"
  then have "of_char (char_of (48 + d)) = (of_char (CHR 0x0A) :: nat)"
    by (simp add: digit_def)
  then show False using d by (simp add: of_char_of)
qed

lemma decimal_no_newline: "CHR 0x0A \<notin> set (decimal n)"
proof (induction n rule: decimal.induct)
  case (1 n)
  show ?case
  proof (cases "n < 10")
    case True
    then show ?thesis using digit_not_newline[of n] by (subst decimal.simps) auto
  next
    case False
    then have "CHR 0x0A \<notin> set (decimal (n div 10))" using 1 by simp
    moreover have "digit (n mod 10) \<noteq> CHR 0x0A" by (rule digit_not_newline) simp
    ultimately show ?thesis using False by (subst decimal.simps) auto
  qed
qed

lemma Itoa_no_newline: "CHR 0x0A \<notin> set (Itoa i)"
  by (simp add: Itoa_def decimal_no_newline)

lemma frame_entry_no_newline: "wf_frame f \<Longrightarrow> CHR 0x0A \<notin> set (frame_entry f)"
  by (simp add: wf_frame_def frame_entry_def Itoa_no_newline)

lemma ReplaceAll_frame:
  assumes "wf_frame f"
  shows "ReplaceAll (Frame_Format f @ t) [CHR 0x0A, CHR 0x09] '' ''
           = frame_entry f @ ReplaceAll t [CHR 0x0A, CHR 0x09] '' ''"
proof -
  let ?R = "\<lambda>s. ReplaceAll s [CHR 0x0A, CHR 0x09] '' ''"
  let ?tail = "frame_file f @ '':'' @ Itoa (frame_line f)"
  have n1: "CHR 0x0A \<notin> set (frame_name f)" using assms by (simp add: wf_frame_def)
  have n2: "CHR 0x0A \<notin> set ?tail" using assms by (simp add: wf_frame_def Itoa_no_newline)
  have "Frame_Format f @ t = frame_name f @ (CHR 0x0A # CHR 0x09 # (?tail @ t))"
    by (simp add: Frame_Format_def)
  then have "?R (Frame_Format f @ t) = ?R (frame_name f @ (CHR 0x0A # CHR 0x09 # (?tail @ t)))"
    by (rule arg_cong)
  also have "\<dots> = frame_name f @ ?R (CHR 0x0A # CHR 0x09 # (?tail @ t))"
    using n1 by (rule ReplaceAll_skip)
  also have "\<dots> = frame_name f @ '' '' @ ?R (?tail @ t)"
    by (simp only: ReplaceAll_hit)
  also have "\<dots> = frame_name f @ '' '' @ ?tail @ ?R t"
    by (simp only: ReplaceAll_skip[OF n2])
  also have "\<dots> = frame_entry f @ ?R t"
    by (simp add: frame_entry_def del: ReplaceAll.simps)
  finally show ?thesis .
qed

lemma Frame_Format_hd:
  "wf_frame f \<Longrightarrow> \<exists>c cs. Frame_Format f @ t = c # cs \<and> c \<noteq> CHR 0x09 \<and> c \<noteq> CHR 0x0A"
  by (cases "frame_name f") (auto simp: wf_frame_def Frame_Format_def)

lemma ReplaceAll_frames:
  "\<forall>f \<in> set fs. wf_frame f \<Longrightarrow>
   ReplaceAll (StackTrace_Format fs) [CHR 0x0A, CHR 0x09] '' ''
     = concat (map (\<lambda>f. CHR 0x0A # frame_entry f) fs)"
proof (induction fs)
  case Nil
  then show ?case by (simp add: StackTrace_Format_def)
next
  case (Cons f fs)
  then have wf: "wf_frame f" by simp
  obtain c cs where cs: "Frame_Format f @ StackTrace_Format fs = c # cs" "c \<noteq> CHR 0x09"
    using Frame_Format_hd[OF wf] by blast
  have "StackTrace_Format (f # fs) = CHR 0x0A # (Frame_Format f @ StackTrace_Format fs)"
    by (simp add: StackTrace_Format_def)
  then have "ReplaceAll (StackTrace_Format (f # fs)) [CHR 0x0A, CHR 0x09] '' ''
      = CHR 0x0A # ReplaceAll (Frame_Format f @ StackTrace_Format fs) [CHR 0x0A, CHR 0x09] '' ''"
    using cs by (simp add: HasPrefix_def)
  then show ?case using Cons wf by (simp add: ReplaceAll_frame del: ReplaceAll.simps)
qed

lemma Split_entries:
  "CHR 0x0A \<notin> set e \<Longrightarrow> \<forall>x \<in> set es. CHR 0x0A \<notin> set x \<Longrightarrow>
   Split (e @ concat (map (\<lambda>x. CHR 0x0A # x) es)) [CHR 0x0A] = e # es"
proof (induction es arbitrary: e)
  case Nil
  then show ?case by (simp add: Split_no_sep)
next
  case (Cons x es)
  then show ?case by (simp add: Split_at_sep)
qed

lemma stackTrace_frames:
  assumes "StackTrace err = Some fs" "fs \<noteq> []" "\<forall>f \<in> set fs. wf_frame f"
  shows "stackTrace err = map frame_entry fs"
proof -
  obtain f gs where fs: "fs = f # gs" using assms(2) by (cases fs) auto
  then have wf: "wf_frame f" and wfs: "\<forall>g \<in> set gs. wf_frame g" using assms(3) by auto
  obtain c cs where cs: "Frame_Format f @ StackTrace_Format gs = c # cs" "c \<noteq> CHR 0x0A"
    using Frame_Format_hd[OF wf] by blast
  have "StackTrace_Format fs = CHR 0x0A # (Frame_Format f @ StackTrace_Format gs)"
    by (simp add: fs StackTrace_Format_def)
  then have "TrimLeft (StackTrace_Format fs) [CHR 0x0A] = Frame_Format f @ StackTrace_Format gs"
    using cs by (simp add: TrimLeft_def)
  then have "stackTrace err
      = Split (frame_entry f @ concat (map (\<lambda>f. CHR 0x0A # frame_entry f) gs)) [CHR 0x0A]"
    using assms(1) wf wfs
    by (simp add: stackTrace_def ReplaceAll_frame ReplaceAll_frames del: ReplaceAll.simps Split.simps)
  also have "concat (map (\<lambda>f. CHR 0x0A # frame_entry f) gs)
      = concat (map (\<lambda>x. CHR 0x0A # x) (map frame_entry gs))"
    by (simp add: comp_def)
  also have "Split (frame_entry f @ \<dots>) [CHR 0x0A] = frame_entry f # map frame_entry gs"
    using wf wfs by (intro Split_entries) (auto simp: frame_entry_no_newline)
  finally show ?thesis by (simp add: fs del: Split.simps)
qed

lemma stackTrace_nonempty: "StackTrace err = Some fs \<Longrightarrow> stackTrace err \<noteq> []"
proof -
  have "Split s sep \<noteq> []" for s sep
    by (induction s sep rule: Split.induct) (auto split: list.splits)
  then show "StackTrace err = Some fs \<Longrightarrow> stackTrace err \<noteq> []"
    by (simp add: stackTrace_def)
qed

text \<open>
  Claim C6.  For an error that exposes a stack trace: whenever \<open>extractError\<close> returns,
  the trace has at most \<open>maxST\<close> entries and is the leading part of the extracted lines,
  in their order; it returns for every bound that is not negative; for frames as the
  runtime reports them the entries are the first \<open>maxST\<close> frames, one line each,
  innermost first; and with the default bound, fifteen frames give exactly the first ten.
\<close>

theorem extractError_truncation:
  assumes "StackTrace err = Some fs"
  shows "(\<forall>msg trace. extractError maxST err = Inr (msg, trace) \<longrightarrow>
            msg = Error err \<and> int (length trace) \<le> maxST \<and> trace = take (nat maxST) (stackTrace err))
       \<and> (0 \<le> maxST \<longrightarrow> (\<exists>trace. extractError maxST err = Inr (Error err, trace)))
       \<and> (fs \<noteq> [] \<and> (\<forall>f \<in> set fs. wf_frame f) \<and> 0 \<le> maxST \<longrightarrow>
            extractError maxST err = Inr (Error err, map frame_entry (take (nat maxST) fs)))
       \<and> (length fs = 15 \<and> (\<forall>f \<in> set fs. wf_frame f) \<longrightarrow>
            extractError MaxStackTrace err = Inr (Error err, map frame_entry (take 10 fs)))"
proof -
  have ne: "stackTrace err \<noteq> []" using assms by (rule stackTrace_nonempty)
  have a: "msg = Error err \<and> int (length trace) \<le> maxST \<and> trace = take (nat maxST) (stackTrace err)"
    if "extractError maxST err = Inr (msg, trace)" for msg trace
    using that ne by (auto simp: extractError_def Let_def split: if_splits)
  have b: "\<exists>trace. extractError maxST err = Inr (Error err, trace)" if "0 \<le> maxST"
    using that by (auto simp: extractError_def Let_def)
  have c: "extractError m err = Inr (Error err, map frame_entry (take (nat m) fs))"
    if "fs \<noteq> []" "\<forall>f \<in> set fs. wf_frame f" "0 \<le> m" for m
  proof -
    have st: "stackTrace err = map frame_entry fs" using assms that by (intro stackTrace_frames)
    show ?thesis using that by (auto simp: extractError_def Let_def st take_map)
  qed
  have d: "extractError MaxStackTrace err = Inr (Error err, map frame_entry (take 10 fs))"
    if "length fs = 15" "\<forall>f \<in> set fs. wf_frame f"
  proof -
    from that(1) have "fs \<noteq> []" by auto
    then show ?thesis using c[of 10] that by (simp add: MaxStackTrace_def)
  qed
  from a b c d show ?thesis by blast
qed


theorem extractError_truncation_witness:
  "StackTrace (GoError ''boom'' (Some (map example_frame [1, 2, 3, 4, 5, 6, 7, 8, 9, 10, 11, 12, 13, 14, 15])))
     = Some (map example_frame [1, 2, 3, 4, 5, 6, 7, 8, 9, 10, 11, 12, 13, 14, 15])
   \<and> extractError MaxStackTrace
        (GoError ''boom'' (Some (map example_frame [1, 2, 3, 4, 5, 6, 7, 8, 9, 10, 11, 12, 13, 14, 15])))
     = Inr (''boom'', map frame_entry (map example_frame [1, 2, 3, 4, 5, 6, 7, 8, 9, 10]))
   \<and> frame_entry (example_frame 1) = ''main.run /src/main.go:1''"
proof -
  let ?fs = "map example_frame [1, 2, 3, 4, 5, 6, 7, 8, 9, 10, 11, 12, 13, 14, 15]"
  have st: "StackTrace (GoError ''boom'' (Some ?fs)) = Some ?fs" by simp
  have len: "length ?fs = 15" by simp
  have wf: "\<forall>f \<in> set ?fs. wf_frame f" by (simp add: wf_frame_def example_frame_def)
  have "extractError MaxStackTrace (GoError ''boom'' (Some ?fs))
          = Inr (Error (GoError ''boom'' (Some ?fs)), map frame_entry (take 10 ?fs))"
    using extractError_truncation [OF st, of MaxStackTrace] len wf by blast
  moreover have "frame_entry (example_frame 1) = ''main.run /src/main.go:1''"
    by code_simp
  ultimately show ?thesis using st by simp
qed

section \<open>Properties of the formatter\<close>

lemma Format_loop_drop_request:
  "Format_loop L maxST (filter (\<lambda>(k, v). k \<noteq> ''request'') ds) c = Format_loop L maxST ds c"
  by (induction ds arbitrary: c) (auto split: gvalue.splits sum.splits)

lemma Format_loop_ctxt_request:
  "Format_loop L maxST ds c = Inr c' \<Longrightarrow> ctxt c' ''request'' = ctxt c ''request''"
  by (induction ds arbitrary: c) (auto split: gvalue.splits sum.splits if_splits)

lemma caller_context_request: "caller_context entry ''request'' = None"
  by (simp add: caller_context_def split: option.splits)

lemma map_of_drop_request:
  "map_of (filter (\<lambda>(k, v). k \<noteq> ''request'') ds) ''request'' = None"
  by (induction ds) auto

lemma Format_request_no_match:
  "map_of (Data entry) ''request'' = Some v \<Longrightarrow> \<forall>r. v \<noteq> VRequest r \<Longrightarrow>
   Format_request L entry c data = (Inr SchemaGeneralLogsV1, data, entry)"
  by (cases v) (auto simp: Format_request_def)

lemma Format_request_absent:
  "map_of (Data entry) ''request'' = None \<Longrightarrow>
   Format_request L entry c data = (Inr SchemaGeneralLogsV1, data, entry)"
  by (auto simp: Format_request_def)

lemma Format_build_general:
  assumes "\<And>c data. Format_request L entry c data = (Inr SchemaGeneralLogsV1, data, entry)"
  shows "Format_build L maxST af data0 entry =
           (case Format_locals L maxST entry of
              Inl e \<Rightarrow> (Inl e, None, entry)
            | Inr c \<Rightarrow>
                (Inr ((Format_populate L af entry c data0)\<lparr>Schema := SchemaGeneralLogsV1\<rparr>),
                 Some ((Format_populate L af entry c data0)\<lparr>Schema := SchemaGeneralLogsV1\<rparr>),
                 entry))"
  by (simp add: Format_build_def assms split: sum.splits)

text \<open>
  Claim C10.  When the field map has the key \<open>request\<close> with a value that is not a
  \<open>*http.Request\<close>, the value is discarded: the encoder is given what it would be given
  for the entry without that key; the context has no key \<open>request\<close>; the schema is
  \<open>general.logs.v1\<close>; no enrichment runs, so the record's request pointer is the one the
  pooled record already held and the entry is left as it was.
\<close>

theorem request_of_other_type_discarded:
  assumes "map_of (Data entry) ''request'' = Some v" and "\<forall>r. v \<noteq> VRequest r"
  shows "fst (Format_build L maxST af data0 entry)
           = fst (Format_build L maxST af data0
                    (entry\<lparr>Data := filter (\<lambda>(k, v). k \<noteq> ''request'') (Data entry)\<rparr>))
       \<and> (\<forall>data put entry'. Format_build L maxST af data0 entry = (Inr data, put, entry') \<longrightarrow>
             Context data ''request'' = None \<and> Schema data = ''general.logs.v1''
             \<and> Request data = Request data0 \<and> entry' = entry
             \<and> jget (Marshal_LogsV1 data) ''schema'' = Some (JString ''general.logs.v1'')
             \<and> jget (Marshal_LogsV1 data) ''request'' = map_option Marshal_RequestData (Request data0))
       \<and> (\<forall>e put entry'. Format_build L maxST af data0 entry = (Inl e, put, entry') \<longrightarrow>
             put = None \<and> entry' = entry)"
proof -
  let ?entry2 = "entry\<lparr>Data := filter (\<lambda>(k, v). k \<noteq> ''request'') (Data entry)\<rparr>"
  have loc: "Format_locals L maxST ?entry2 = Format_locals L maxST entry"
    by (simp add: Format_locals_def Format_loop_drop_request caller_context_def HasCaller_def)
  have r1: "Format_request L entry c data = (Inr SchemaGeneralLogsV1, data, entry)" for c data
    using assms by (rule Format_request_no_match)
  have r2: "Format_request L ?entry2 c data = (Inr SchemaGeneralLogsV1, data, ?entry2)" for c data
    by (rule Format_request_absent) (simp add: map_of_drop_request)
  have pop: "Format_populate L af ?entry2 c data0 = Format_populate L af entry c data0" for c
    by (simp add: Format_populate_def)
  have a: "fst (Format_build L maxST af data0 entry) = fst (Format_build L maxST af data0 ?entry2)"
    by (simp add: Format_build_general[OF r1] Format_build_general[OF r2] loc pop split: sum.splits)
  have b: "Context data ''request'' = None \<and> Schema data = ''general.logs.v1''
             \<and> Request data = Request data0 \<and> entry' = entry
             \<and> jget (Marshal_LogsV1 data) ''schema'' = Some (JString ''general.logs.v1'')
             \<and> jget (Marshal_LogsV1 data) ''request'' = map_option Marshal_RequestData (Request data0)"
    if "Format_build L maxST af data0 entry = (Inr data, put, entry')" for data put entry'
  proof (cases "Format_locals L maxST entry")
    case (Inl e)
    with that show ?thesis unfolding Format_build_general[OF r1] by simp
  next
    case (Inr c)
    let ?d = "(Format_populate L af entry c data0)\<lparr>Schema := SchemaGeneralLogsV1\<rparr>"
    have fb: "Format_build L maxST af data0 entry = (Inr ?d, Some ?d, entry)"
      unfolding Format_build_general[OF r1] Inr by simp
    have d: "data = ?d" and e: "entry' = entry"
      using that unfolding fb by blast+
    from Inr have "ctxt c ''request'' = None"
      using Format_loop_ctxt_request[of L maxST "Data entry" _ c]
      by (simp add: Format_locals_def caller_context_request)
    then show ?thesis unfolding d e
      by (cases "Request data0")
         (simp_all add: Format_populate_def SchemaGeneralLogsV1_def jget_def Marshal_LogsV1_def)
  qed
  have c: "put = None \<and> entry' = entry"
    if "Format_build L maxST af data0 entry = (Inl e, put, entry')" for e put entry'
  proof (cases "Format_locals L maxST entry")
    case (Inl e')
    have fb: "Format_build L maxST af data0 entry = (Inl e', None, entry)"
      unfolding Format_build_general[OF r1] Inl by simp
    show ?thesis using that unfolding fb by simp
  next
    case (Inr c)
    have "fst (Format_build L maxST af data0 entry) \<noteq> Inl e"
      unfolding Format_build_general[OF r1] Inr by simp
    with that show ?thesis by simp
  qed
  from a b c show ?thesis by blast
qed

theorem request_of_other_type_discarded_witness:
  "map_of (Data (example_entry [(''request'', VString ''oops''), (''k'', VInt 1)])) ''request''
     = Some (VString ''oops'')
   \<and> (\<exists>data. fst (Format_build example_lib MaxStackTrace (NewFormatter ''svc'' ''prod'') LogsV1_zero
                     (example_entry [(''request'', VString ''oops''), (''k'', VInt 1)])) = Inr data
          \<and> Schema data = ''general.logs.v1'' \<and> Request data = None
          \<and> Context data ''request'' = None \<and> Context data ''k'' = Some (VInt 1))"
proof -
  let ?e = "example_entry [(''request'', VString ''oops''), (''k'', VInt 1)]"
  let ?af = "NewFormatter ''svc'' ''prod''"
  have m: "map_of (Data ?e) ''request'' = Some (VString ''oops'')"
    by (simp add: example_entry_def)
  have nr: "\<forall>r. VString ''oops'' \<noteq> VRequest r" by simp
  have r: "Format_request example_lib ?e c data = (Inr SchemaGeneralLogsV1, data, ?e)" for c data
    using m nr by (rule Format_request_no_match)
  have loc: "\<exists>c. Format_locals example_lib MaxStackTrace ?e = Inr c \<and> ctxt c ''k'' = Some (VInt 1)"
    by (simp add: Format_locals_def example_entry_def)
  then obtain c where c: "Format_locals example_lib MaxStackTrace ?e = Inr c"
    and k: "ctxt c ''k'' = Some (VInt 1)" by blast
  let ?d = "(Format_populate example_lib ?af ?e c LogsV1_zero)\<lparr>Schema := SchemaGeneralLogsV1\<rparr>"
  have fb: "Format_build example_lib MaxStackTrace ?af LogsV1_zero ?e = (Inr ?d, Some ?d, ?e)"
    unfolding Format_build_general[OF r] c by simp
  have "Context ?d ''request'' = None \<and> Schema ?d = ''general.logs.v1''
          \<and> Request ?d = Request LogsV1_zero"
    using request_of_other_type_discarded [OF m nr, of example_lib MaxStackTrace ?af LogsV1_zero] fb
    by blast
  moreover have "Context ?d ''k'' = Some (VInt 1)" using k by (simp add: Format_populate_def)
  moreover have "Request LogsV1_zero = None" by (simp add: LogsV1_zero_def)
  ultimately show ?thesis using m fb by (metis fst_conv)
qed

text \<open>
  Claim C7, at the inputs that decide it.  An error that exposes a stack trace of zero
  frames gets a context entry with a \<open>trace\<close> key, holding one empty line: splitting the
  empty rendering gives one empty string, not none.  An error that exposes no stack
  trace gets the entry with \<open>msg\<close> alone.
\<close>

theorem zero_frames_trace_present:
  "Format_loop L MaxStackTrace [(''error'', VError (GoError ''error occurred'' (Some [])))] c
     = Inr (c\<lparr>ctxt := (ctxt c)(''error'' \<mapsto>
              VFields [(''msg'', VString ''error occurred''), (''trace'', VStrings [[]])])\<rparr>)
   \<and> Format_loop L MaxStackTrace [(''error'', VError (GoError ''error occurred'' None))] c
     = Inr (c\<lparr>ctxt := (ctxt c)(''error'' \<mapsto> VFields [(''msg'', VString ''error occurred'')])\<rparr>)"
  by (simp add: extractError_def stackTrace_def StackTrace_Format_def TrimLeft_def MaxStackTrace_def
                errData_def emptyStack_def)

end
